theory Spec2Isabelle
  imports Complex_Main "HOL-Library.AList"
begin

section \<open>The object graph of loja_de_musica.py\<close>

text \<open>
  Python objects have identity: \<open>list.remove\<close> compares by \<open>==\<close>, which for classes
  that define no \<open>__eq__\<close> is identity. Objects therefore live in a heap and are named
  by references; a list of employees or instruments is a list of references. Every
  reference denotes an object (Python has no dangling references), so each heap
  component is a total function.
\<close>

type_synonym loja_ref = nat
type_synonym func_ref = nat
type_synonym instr_ref = nat

text \<open>
  The three concrete subclasses of the abstract class \<open>Instrumento\<close>. The abstract class
  cannot be instantiated, so an instrument is one of these three. The fields \<open>preco\<close> and
  \<open>salario\<close> are only stored, never computed with.
\<close>

datatype instrumento =
    is_Baixo: Baixo (marca: string) (modelo: string) (preco: real) (num_cordas: int)
      (fretless: bool)
  | is_Guitarra: Guitarra (marca: string) (modelo: string) (preco: real) (num_cordas: int)
      (tipo_captador: string)
  | is_Violao: Violao (marca: string) (modelo: string) (preco: real) (num_cordas: int)
      (tipo_corpo: string)

record funcionario =
  nome_completo :: string
  cpf :: string
  salario :: real
  cargo :: string
  loja_atual :: "loja_ref option"

record loja =
  localizacao :: string
  funcionarios :: "func_ref list"
  estoque :: "instr_ref list"
  loja_mais_proxima :: "loja_ref option"

record heap =
  lojas :: "loja_ref \<Rightarrow> loja"
  funcs :: "func_ref \<Rightarrow> funcionario"
  instrs :: "instr_ref \<Rightarrow> instrumento"

text \<open>
  \<open>ValueError\<close> is what \<open>list.remove\<close> raises on an absent element (the spec's NotFound);
  \<open>KeyError\<close> is what \<open>d[k] += 1\<close> raises on an absent key. A call either returns a value
  or raises; in both cases the heap it leaves behind is part of the outcome.
\<close>

datatype error = ValueError | KeyError

datatype 'a outcome = Returned 'a heap | Raised error heap

fun final_heap :: "'a outcome \<Rightarrow> heap" where
  "final_heap (Returned v h) = h"
| "final_heap (Raised e h) = h"

fun and_then :: "unit outcome \<Rightarrow> (heap \<Rightarrow> 'a outcome) \<Rightarrow> 'a outcome" where
  "and_then (Returned v h) k = k h"
| "and_then (Raised e h) k = Raised e h"

subsection \<open>Python's list.remove\<close>

text \<open>Removes the first element equal to \<open>x\<close>; raises \<open>ValueError\<close> when there is none.\<close>

definition list_remove :: "'a list \<Rightarrow> 'a \<Rightarrow> error + 'a list" where
  "list_remove xs x = (if x \<in> set xs then Inr (remove1 x xs) else Inl ValueError)"

subsection \<open>Constructors\<close>

text \<open>
  Each \<open>__init__\<close> receives the fresh object as \<open>self\<close> and assigns its fields.
  \<open>Baixo.__init__\<close> and its siblings call \<open>Instrumento.__init__\<close> and then assign
  their own field.
\<close>

definition Baixo_init ::
  "instr_ref \<Rightarrow> string \<Rightarrow> string \<Rightarrow> real \<Rightarrow> int \<Rightarrow> bool \<Rightarrow> heap \<Rightarrow> unit outcome" where
  "Baixo_init self ma mo pr nc fl h =
     Returned () (h\<lparr>instrs := (instrs h)(self := Baixo ma mo pr nc fl)\<rparr>)"

definition Guitarra_init ::
  "instr_ref \<Rightarrow> string \<Rightarrow> string \<Rightarrow> real \<Rightarrow> int \<Rightarrow> string \<Rightarrow> heap \<Rightarrow> unit outcome" where
  "Guitarra_init self ma mo pr nc tc h =
     Returned () (h\<lparr>instrs := (instrs h)(self := Guitarra ma mo pr nc tc)\<rparr>)"

definition Violao_init ::
  "instr_ref \<Rightarrow> string \<Rightarrow> string \<Rightarrow> real \<Rightarrow> int \<Rightarrow> string \<Rightarrow> heap \<Rightarrow> unit outcome" where
  "Violao_init self ma mo pr nc tc h =
     Returned () (h\<lparr>instrs := (instrs h)(self := Violao ma mo pr nc tc)\<rparr>)"

definition Funcionario_init ::
  "func_ref \<Rightarrow> string \<Rightarrow> string \<Rightarrow> real \<Rightarrow> string \<Rightarrow> heap \<Rightarrow> unit outcome" where
  "Funcionario_init self nome c sal cg h =
     Returned () (h\<lparr>funcs := (funcs h)(self :=
       \<lparr>nome_completo = nome, cpf = c, salario = sal, cargo = cg, loja_atual = None\<rparr>)\<rparr>)"

definition Loja_init :: "loja_ref \<Rightarrow> string \<Rightarrow> heap \<Rightarrow> unit outcome" where
  "Loja_init self loc h =
     Returned () (h\<lparr>lojas := (lojas h)(self :=
       \<lparr>localizacao = loc, funcionarios = [], estoque = [], loja_mais_proxima = None\<rparr>)\<rparr>)"

subsection \<open>Loja: employees and inventory\<close>

definition set_loja_atual :: "func_ref \<Rightarrow> loja_ref option \<Rightarrow> heap \<Rightarrow> heap" where
  "set_loja_atual f v h = h\<lparr>funcs := (funcs h)(f := (funcs h f)\<lparr>loja_atual := v\<rparr>)\<rparr>"

definition set_funcionarios :: "loja_ref \<Rightarrow> func_ref list \<Rightarrow> heap \<Rightarrow> heap" where
  "set_funcionarios s fs h = h\<lparr>lojas := (lojas h)(s := (lojas h s)\<lparr>funcionarios := fs\<rparr>)\<rparr>"

definition set_estoque :: "loja_ref \<Rightarrow> instr_ref list \<Rightarrow> heap \<Rightarrow> heap" where
  "set_estoque s is h = h\<lparr>lojas := (lojas h)(s := (lojas h s)\<lparr>estoque := is\<rparr>)\<rparr>"

text \<open>
  \<open>self.funcionarios.append(funcionario); funcionario.loja_atual = self\<close>
\<close>

definition adicionar_funcionario :: "loja_ref \<Rightarrow> func_ref \<Rightarrow> heap \<Rightarrow> unit outcome" where
  "adicionar_funcionario self f h =
     Returned () (set_loja_atual f (Some self)
       (set_funcionarios self (funcionarios (lojas h self) @ [f]) h))"

text \<open>
  \<open>self.funcionarios.remove(funcionario); funcionario.loja_atual = None\<close>.
  When \<open>remove\<close> raises, nothing has been assigned yet.
\<close>

definition remover_funcionario :: "loja_ref \<Rightarrow> func_ref \<Rightarrow> heap \<Rightarrow> unit outcome" where
  "remover_funcionario self f h =
     (case list_remove (funcionarios (lojas h self)) f of
        Inl e \<Rightarrow> Raised e h
      | Inr fs \<Rightarrow> Returned () (set_loja_atual f None (set_funcionarios self fs h)))"

definition adicionar_instrumento :: "loja_ref \<Rightarrow> instr_ref \<Rightarrow> heap \<Rightarrow> unit outcome" where
  "adicionar_instrumento self i h =
     Returned () (set_estoque self (estoque (lojas h self) @ [i]) h)"

definition remover_instrumento :: "loja_ref \<Rightarrow> instr_ref \<Rightarrow> heap \<Rightarrow> unit outcome" where
  "remover_instrumento self i h =
     (case list_remove (estoque (lojas h self)) i of
        Inl e \<Rightarrow> Raised e h
      | Inr is \<Rightarrow> Returned () (set_estoque self is h))"

subsection \<open>Funcionario.mudar_loja\<close>

text \<open>
  The body has three statements. A \<open>Loja\<close> object defines neither \<open>__bool__\<close> nor
  \<open>__len__\<close>, so \<open>if self.loja_atual:\<close> tests for \<open>None\<close>.
\<close>

definition mudar_loja_detach :: "func_ref \<Rightarrow> heap \<Rightarrow> unit outcome" where
  "mudar_loja_detach self h =
     (case loja_atual (funcs h self) of
        None \<Rightarrow> Returned () h
      | Some atual \<Rightarrow> remover_funcionario atual self h)"

definition mudar_loja_attach :: "func_ref \<Rightarrow> loja_ref \<Rightarrow> heap \<Rightarrow> unit outcome" where
  "mudar_loja_attach self nova_loja h = adicionar_funcionario nova_loja self h"

definition mudar_loja_assign :: "func_ref \<Rightarrow> loja_ref \<Rightarrow> heap \<Rightarrow> unit outcome" where
  "mudar_loja_assign self nova_loja h = Returned () (set_loja_atual self (Some nova_loja) h)"

definition mudar_loja :: "func_ref \<Rightarrow> loja_ref \<Rightarrow> heap \<Rightarrow> unit outcome" where
  "mudar_loja self nova_loja h =
     and_then (and_then (mudar_loja_detach self h) (mudar_loja_attach self nova_loja))
       (mudar_loja_assign self nova_loja)"

subsection \<open>Dictionaries\<close>

text \<open>
  A Python \<open>dict\<close> keeps its keys in insertion order; assigning to a key that is present
  keeps the key's position, assigning to a new key appends it. That is an association
  list with \<open>AList.update\<close>. \<open>d[k] += 1\<close> reads \<open>d[k]\<close> first and raises \<open>KeyError\<close>
  when the key is absent.
\<close>

type_synonym pydict = "(string \<times> int) list"

definition dict_contains :: "pydict \<Rightarrow> string \<Rightarrow> bool" where
  "dict_contains d k = (k \<in> set (map fst d))"

definition dict_setitem :: "pydict \<Rightarrow> string \<Rightarrow> int \<Rightarrow> pydict" where
  "dict_setitem d k v = AList.update k v d"

definition dict_incr :: "pydict \<Rightarrow> string \<Rightarrow> error + pydict" where
  "dict_incr d k =
     (case map_of d k of
        None \<Rightarrow> Inl KeyError
      | Some v \<Rightarrow> Inr (dict_setitem d k (v + 1)))"

subsection \<open>Loja.consultar_instrumentos\<close>

text \<open>The key \<open>'Viol\~ao'\<close>: the character a-tilde is code point 0xE3.\<close>

definition chave_Baixo :: string where
  "chave_Baixo = ''Baixo''"

definition chave_Guitarra :: string where
  "chave_Guitarra = ''Guitarra''"

definition chave_Violao :: string where
  "chave_Violao = ''Viol'' @ [CHR 0xE3] @ ''o''"

text \<open>
  The \<open>for\<close> loop over \<open>self.estoque\<close> with its \<open>if\<close>/\<open>elif\<close>/\<open>elif\<close> chain on
  \<open>isinstance\<close>; the chain has no \<open>else\<close>, so an object of none of the three classes
  would leave the dictionary as it is.
\<close>

fun contar_instrumentos :: "heap \<Rightarrow> instr_ref list \<Rightarrow> pydict \<Rightarrow> error + pydict" where
  "contar_instrumentos h [] d = Inr d"
| "contar_instrumentos h (i # rest) d =
     (case (if is_Baixo (instrs h i) then dict_incr d chave_Baixo
            else if is_Guitarra (instrs h i) then dict_incr d chave_Guitarra
            else if is_Violao (instrs h i) then dict_incr d chave_Violao
            else Inr d) of
        Inl e \<Rightarrow> Inl e
      | Inr d' \<Rightarrow> contar_instrumentos h rest d')"

definition consultar_instrumentos :: "loja_ref \<Rightarrow> heap \<Rightarrow> pydict outcome" where
  "consultar_instrumentos self h =
     (case contar_instrumentos h (estoque (lojas h self))
             [(chave_Baixo, 0), (chave_Guitarra, 0), (chave_Violao, 0)] of
        Inl e \<Rightarrow> Raised e h
      | Inr d \<Rightarrow> Returned d h)"

subsection \<open>Loja.consultar_funcionarios_por_cargo\<close>

fun contar_cargos :: "heap \<Rightarrow> func_ref list \<Rightarrow> pydict \<Rightarrow> error + pydict" where
  "contar_cargos h [] d = Inr d"
| "contar_cargos h (f # rest) d =
     (case (if dict_contains d (cargo (funcs h f)) then dict_incr d (cargo (funcs h f))
            else Inr (dict_setitem d (cargo (funcs h f)) 1)) of
        Inl e \<Rightarrow> Inl e
      | Inr d' \<Rightarrow> contar_cargos h rest d')"

definition consultar_funcionarios_por_cargo :: "loja_ref \<Rightarrow> heap \<Rightarrow> pydict outcome" where
  "consultar_funcionarios_por_cargo self h =
     (case contar_cargos h (funcionarios (lojas h self)) [] of
        Inl e \<Rightarrow> Raised e h
      | Inr d \<Rightarrow> Returned d h)"

section \<open>Notions of the specification\<close>

text \<open>
  The stores whose employee collection contains an employee, and the consistency of
  \<open>loja_atual\<close> with the collections: \<open>e.loja_atual\<close> is \<open>s\<close> exactly when \<open>e\<close> is in
  \<open>s.funcionarios\<close> (so \<open>e\<close> is in at most one collection, and in none when
  \<open>e.loja_atual\<close> is \<open>None\<close>).
\<close>

definition lojas_contendo :: "heap \<Rightarrow> func_ref \<Rightarrow> loja_ref set" where
  "lojas_contendo h e = {s. e \<in> set (funcionarios (lojas h s))}"

definition consistent :: "heap \<Rightarrow> bool" where
  "consistent h =
     (\<forall>e s. (e \<in> set (funcionarios (lojas h s))) = (loja_atual (funcs h e) = Some s))"

definition no_duplicates :: "heap \<Rightarrow> bool" where
  "no_duplicates h = (\<forall>s. distinct (funcionarios (lojas h s)))"

text \<open>
  A heap of freshly constructed objects: no store has employees, no employee has a store.
\<close>

definition fresh :: "heap \<Rightarrow> bool" where
  "fresh h = ((\<forall>s. funcionarios (lojas h s) = []) \<and> (\<forall>e. loja_atual (funcs h e) = None))"

text \<open>
  The heaps reached from fresh objects by the mutating operations, where
  \<open>adicionar_funcionario\<close> is called only on an employee whose \<open>loja_atual\<close> is \<open>None\<close>.
  A call that raises leaves a heap too.
\<close>

inductive reachable :: "heap \<Rightarrow> bool" where
  reach_fresh: "fresh h \<Longrightarrow> reachable h"
| reach_adicionar:
    "reachable h \<Longrightarrow> loja_atual (funcs h e) = None \<Longrightarrow>
       reachable (final_heap (adicionar_funcionario s e h))"
| reach_remover: "reachable h \<Longrightarrow> reachable (final_heap (remover_funcionario s e h))"
| reach_mudar: "reachable h \<Longrightarrow> reachable (final_heap (mudar_loja e s h))"
| reach_adicionar_instrumento:
    "reachable h \<Longrightarrow> reachable (final_heap (adicionar_instrumento s i h))"
| reach_remover_instrumento:
    "reachable h \<Longrightarrow> reachable (final_heap (remover_instrumento s i h))"

text \<open>
  The spec's reading of a transfer: \<open>oldStore.removeEmployee(e)\<close> followed by
  \<open>newStore.addEmployee(e)\<close>.
\<close>

definition remover_then_adicionar ::
  "loja_ref \<Rightarrow> loja_ref \<Rightarrow> func_ref \<Rightarrow> heap \<Rightarrow> unit outcome" where
  "remover_then_adicionar old new e h =
     and_then (remover_funcionario old e h) (adicionar_funcionario new e)"

text \<open>
  The order in which the elements of a list are first met when it is scanned from the
  front.
\<close>

fun first_encounter :: "'a list \<Rightarrow> 'a list" where
  "first_encounter [] = []"
| "first_encounter (x # xs) = x # filter (\<lambda>y. y \<noteq> x) (first_encounter xs)"

section \<open>Heaps used in the examples\<close>

text \<open>A heap in which every store and every employee is as its constructor leaves it.\<close>

definition loja_vazia :: loja where
  "loja_vazia = \<lparr>localizacao = [], funcionarios = [], estoque = [], loja_mais_proxima = None\<rparr>"

definition funcionario_novo :: funcionario where
  "funcionario_novo =
     \<lparr>nome_completo = [], cpf = [], salario = 0, cargo = [], loja_atual = None\<rparr>"

definition heap0 :: heap where
  "heap0 = \<lparr>lojas = (\<lambda>_. loja_vazia), funcs = (\<lambda>_. funcionario_novo),
            instrs = (\<lambda>_. Baixo [] [] 0 0 False)\<rparr>"

text \<open>Employee 0 added to store 0; and added to it a second time.\<close>

definition heap1 :: heap where
  "heap1 = final_heap (adicionar_funcionario 0 0 heap0)"

definition heap_dup :: heap where
  "heap_dup = final_heap (adicionar_funcionario 0 0 heap1)"

text \<open>
  The heap that \<open>main\<close> has built before its first query (names in ASCII): stores 0, 1, 2
  linked in a cycle, employees 0 and 1 in store 0 and employee 2 in store 1, a bass and
  a guitar in store 0 and an acoustic guitar in store 1.
\<close>

definition heap_main :: heap where
  "heap_main =
     \<lparr>lojas = (\<lambda>_. loja_vazia)
        (0 := \<lparr>localizacao = ''Sao Paulo'', funcionarios = [0, 1], estoque = [0, 1],
                loja_mais_proxima = Some 1\<rparr>,
         1 := \<lparr>localizacao = ''Rio de Janeiro'', funcionarios = [2], estoque = [2],
                loja_mais_proxima = Some 2\<rparr>,
         2 := \<lparr>localizacao = ''Xique-Xique'', funcionarios = [], estoque = [],
                loja_mais_proxima = Some 0\<rparr>),
      funcs = (\<lambda>_. funcionario_novo)
        (0 := \<lparr>nome_completo = ''Pinho'', cpf = ''123.456.789-00'', salario = 2500,
                cargo = ''Vendedor'', loja_atual = Some 0\<rparr>,
         1 := \<lparr>nome_completo = ''Padre Kelmon'', cpf = ''987.654.321-00'', salario = 3000,
                cargo = ''Gerente'', loja_atual = Some 0\<rparr>,
         2 := \<lparr>nome_completo = ''Tokar'', cpf = ''456.789.123-00'', salario = 2000,
                cargo = ''Caixa'', loja_atual = Some 1\<rparr>),
      instrs = (\<lambda>_. Baixo [] [] 0 0 False)
        (0 := Baixo ''Fender'' ''Jazz Bass'' 5000 4 False,
         1 := Guitarra ''Gibson'' ''Les Paul'' 7000 6 ''Humbucker'',
         2 := Violao ''Yamaha'' ''C40'' 800 6 ''Classico'')\<rparr>"

text \<open>The value a key has in a dictionary, 0 when the key is absent.\<close>

definition dict_val :: "pydict \<Rightarrow> string \<Rightarrow> int" where
  "dict_val d k = (case map_of d k of None \<Rightarrow> 0 | Some v \<Rightarrow> v)"

section \<open>Basic facts about the heap updates\<close>

lemma lojas_set_loja_atual [simp]: "lojas (set_loja_atual f v h) = lojas h"
  by (simp add: set_loja_atual_def)

lemma instrs_set_loja_atual [simp]: "instrs (set_loja_atual f v h) = instrs h"
  by (simp add: set_loja_atual_def)

lemma loja_atual_set_loja_atual [simp]:
  "loja_atual (funcs (set_loja_atual f v h) g) = (if g = f then v else loja_atual (funcs h g))"
  by (simp add: set_loja_atual_def)

lemma cargo_set_loja_atual [simp]: "cargo (funcs (set_loja_atual f v h) g) = cargo (funcs h g)"
  by (simp add: set_loja_atual_def)

lemma funcs_set_funcionarios [simp]: "funcs (set_funcionarios s fs h) = funcs h"
  by (simp add: set_funcionarios_def)

lemma instrs_set_funcionarios [simp]: "instrs (set_funcionarios s fs h) = instrs h"
  by (simp add: set_funcionarios_def)

lemma funcionarios_set_funcionarios [simp]:
  "funcionarios (lojas (set_funcionarios s fs h) t) =
     (if t = s then fs else funcionarios (lojas h t))"
  by (simp add: set_funcionarios_def)

lemma estoque_set_funcionarios [simp]:
  "estoque (lojas (set_funcionarios s fs h) t) = estoque (lojas h t)"
  by (simp add: set_funcionarios_def)

lemma lojas_set_funcionarios_other: "t \<noteq> s \<Longrightarrow> lojas (set_funcionarios s fs h) t = lojas h t"
  by (simp add: set_funcionarios_def)

lemma funcs_set_estoque [simp]: "funcs (set_estoque s is h) = funcs h"
  by (simp add: set_estoque_def)

lemma funcionarios_set_estoque [simp]:
  "funcionarios (lojas (set_estoque s is h) t) = funcionarios (lojas h t)"
  by (simp add: set_estoque_def)

lemma estoque_set_estoque [simp]:
  "estoque (lojas (set_estoque s is h) t) = (if t = s then is else estoque (lojas h t))"
  by (simp add: set_estoque_def)

section \<open>Facts about lists and dictionaries\<close>

lemma count_remove1: "x \<in> set xs \<Longrightarrow> Suc (count_list (remove1 x xs) x) = count_list xs x"
  by (induction xs) auto

lemma mem_iff_count: "(x \<in> set xs) = (0 < count_list xs x)"
  using count_list_0_iff [of xs x] by auto

lemma not_in_remove1_once: "count_list xs x = 1 \<Longrightarrow> x \<notin> set (remove1 x xs)"
proof -
  assume c: "count_list xs x = 1"
  then have "x \<in> set xs" using count_list_0_iff [of xs x] by auto
  from count_remove1 [OF this] c have "count_list (remove1 x xs) x = 0" by simp
  then show ?thesis using count_list_0_iff [of "remove1 x xs" x] by simp
qed

lemma set_first_encounter [simp]: "set (first_encounter xs) = set xs"
  by (induction xs) auto

lemma distinct_first_encounter [simp]: "distinct (first_encounter xs)"
  by (induction xs) auto

lemma dict_contains_iff: "dict_contains d k = (map_of d k \<noteq> None)"
  by (simp add: dict_contains_def map_of_eq_None_iff)

lemma dict_val_update: "dict_val (AList.update k v d) j = (if j = k then v else dict_val d j)"
  by (simp add: dict_val_def update_conv')

lemma snd_by_dict_val:
  "distinct (map fst d) \<Longrightarrow> map snd d = map (dict_val d) (map fst d)"
proof (induction d)
  case Nil
  show ?case by simp
next
  case (Cons p d)
  obtain k v where p: "p = (k, v)" by (cases p)
  from Cons.prems p have nk: "k \<notin> fst ` set d" and dd: "distinct (map fst d)" by simp_all
  have "map (dict_val ((k, v) # d)) (map fst d) = map (dict_val d) (map fst d)"
    using nk by (auto simp: dict_val_def)
  with Cons.IH [OF dd] p show ?case by (simp add: dict_val_def)
qed

lemma sum_update:
  "distinct (map fst d) \<Longrightarrow>
   sum_list (map snd (AList.update k v d)) = sum_list (map snd d) - dict_val d k + v"
proof (induction d)
  case Nil
  show ?case by (simp add: dict_val_def)
next
  case (Cons p d)
  obtain j w where p: "p = (j, w)" by (cases p)
  show ?case
  proof (cases "j = k")
    case True
    with p show ?thesis by (simp add: dict_val_def)
  next
    case False
    from Cons.prems have "distinct (map fst d)" by simp
    from Cons.IH [OF this] False p show ?thesis by (simp add: dict_val_def)
  qed
qed

section \<open>The consistency invariant\<close>

lemma set_loja_atual_idem: "set_loja_atual f v (set_loja_atual f v h) = set_loja_atual f v h"
  by (simp add: set_loja_atual_def)

lemma fresh_wf: "fresh h \<Longrightarrow> consistent h \<and> no_duplicates h"
  by (simp add: fresh_def consistent_def no_duplicates_def)

lemma adicionar_wf:
  assumes "consistent h" "no_duplicates h" "loja_atual (funcs h e) = None"
  shows "consistent (final_heap (adicionar_funcionario s e h))
       \<and> no_duplicates (final_heap (adicionar_funcionario s e h))"
  using assms by (auto simp: consistent_def no_duplicates_def adicionar_funcionario_def)

lemma remover_wf:
  assumes "consistent h" "no_duplicates h"
  shows "consistent (final_heap (remover_funcionario s e h))
       \<and> no_duplicates (final_heap (remover_funcionario s e h))"
  using assms by (auto simp: consistent_def no_duplicates_def remover_funcionario_def list_remove_def)

lemma detach_wf:
  assumes "consistent h" "no_duplicates h"
  shows "\<exists>h1. mudar_loja_detach e h = Returned () h1 \<and> consistent h1 \<and> no_duplicates h1
           \<and> loja_atual (funcs h1 e) = None"
proof (cases "loja_atual (funcs h e)")
  case None
  with assms show ?thesis by (simp add: mudar_loja_detach_def)
next
  case (Some old)
  with assms(1) have m: "e \<in> set (funcionarios (lojas h old))" by (simp add: consistent_def)
  have r: "remover_funcionario old e h
      = Returned () (set_loja_atual e None (set_funcionarios old (remove1 e (funcionarios (lojas h old))) h))"
    using m by (simp add: remover_funcionario_def list_remove_def)
  from remover_wf [OF assms, of old e] r Some show ?thesis
    by (simp add: mudar_loja_detach_def)
qed

lemma mudar_wf:
  assumes "consistent h" "no_duplicates h"
  shows "\<exists>h'. mudar_loja e s h = Returned () h' \<and> consistent h' \<and> no_duplicates h'"
proof -
  from detach_wf [OF assms, of e] obtain h1 where
    d: "mudar_loja_detach e h = Returned () h1" and c1: "consistent h1" and n1: "no_duplicates h1"
    and l1: "loja_atual (funcs h1 e) = None" by blast
  from adicionar_wf [OF c1 n1 l1, of s]
  have "consistent (set_loja_atual e (Some s) (set_funcionarios s (funcionarios (lojas h1 s) @ [e]) h1))
      \<and> no_duplicates (set_loja_atual e (Some s) (set_funcionarios s (funcionarios (lojas h1 s) @ [e]) h1))"
    by (simp add: adicionar_funcionario_def)
  with d show ?thesis
    by (simp add: mudar_loja_def mudar_loja_attach_def mudar_loja_assign_def
        adicionar_funcionario_def set_loja_atual_idem)
qed

lemma consistent_set_estoque: "consistent (set_estoque s is h) = consistent h"
  by (simp add: consistent_def)

lemma no_duplicates_set_estoque: "no_duplicates (set_estoque s is h) = no_duplicates h"
  by (simp add: no_duplicates_def)

lemma reachable_wf: "reachable h \<Longrightarrow> consistent h \<and> no_duplicates h"
proof (induction rule: reachable.induct)
  case (reach_fresh h)
  then show ?case by (rule fresh_wf)
next
  case (reach_adicionar h e s)
  then show ?case using adicionar_wf by blast
next
  case (reach_remover h s e)
  then show ?case using remover_wf by blast
next
  case (reach_mudar h e s)
  with mudar_wf [of h e s] show ?case by auto
next
  case (reach_adicionar_instrumento h s i)
  then show ?case
    by (simp add: adicionar_instrumento_def consistent_set_estoque no_duplicates_set_estoque)
next
  case (reach_remover_instrumento h s i)
  then show ?case
    by (simp add: remover_instrumento_def list_remove_def consistent_set_estoque no_duplicates_set_estoque)
qed

section \<open>The counting loops\<close>

lemma filter_classes:
  "length (filter is_Baixo ks) + length (filter is_Guitarra ks) + length (filter is_Violao ks)
     = length ks"
proof (induction ks)
  case Nil
  show ?case by simp
next
  case (Cons k ks)
  then show ?case by (cases k) simp_all
qed

lemma chaves_distinct: "distinct [chave_Baixo, chave_Guitarra, chave_Violao]"
  by (simp add: chave_Baixo_def chave_Guitarra_def chave_Violao_def)

lemma chaves_neq:
  "chave_Baixo \<noteq> chave_Guitarra" "chave_Guitarra \<noteq> chave_Baixo"
  "chave_Baixo \<noteq> chave_Violao" "chave_Violao \<noteq> chave_Baixo"
  "chave_Guitarra \<noteq> chave_Violao" "chave_Violao \<noteq> chave_Guitarra"
  by (simp_all add: chave_Baixo_def chave_Guitarra_def chave_Violao_def)

lemma contar_instrumentos_general:
  "contar_instrumentos h refs [(chave_Baixo, b), (chave_Guitarra, g), (chave_Violao, v)]
   = Inr [(chave_Baixo, b + int (length (filter is_Baixo (map (instrs h) refs)))),
          (chave_Guitarra, g + int (length (filter is_Guitarra (map (instrs h) refs)))),
          (chave_Violao, v + int (length (filter is_Violao (map (instrs h) refs))))]"
proof (induction refs arbitrary: b g v)
  case Nil
  show ?case by simp
next
  case (Cons i refs)
  show ?case
    by (cases "instrs h i") (simp_all add: dict_incr_def dict_setitem_def Cons.IH chaves_neq)
qed

lemma contar_cargos_step_contains:
  "dict_contains d (cargo (funcs h f)) \<Longrightarrow>
   contar_cargos h (f # rest) d
     = contar_cargos h rest
         (AList.update (cargo (funcs h f)) (dict_val d (cargo (funcs h f)) + 1) d)"
  by (auto simp: dict_contains_iff dict_incr_def dict_setitem_def dict_val_def)

lemma contar_cargos_step_new:
  "\<not> dict_contains d (cargo (funcs h f)) \<Longrightarrow>
   contar_cargos h (f # rest) d = contar_cargos h rest (AList.update (cargo (funcs h f)) 1 d)"
  by (simp add: dict_setitem_def)

lemma contar_cargos_step:
  "contar_cargos h (f # rest) d
     = contar_cargos h rest
         (AList.update (cargo (funcs h f)) (dict_val d (cargo (funcs h f)) + 1) d)"
proof (cases "dict_contains d (cargo (funcs h f))")
  case True
  then show ?thesis by (rule contar_cargos_step_contains)
next
  case False
  then have "dict_val d (cargo (funcs h f)) = 0"
    by (simp add: dict_contains_iff dict_val_def)
  with contar_cargos_step_new [OF False] show ?thesis by simp
qed

lemma contar_cargos_returns: "\<exists>d'. contar_cargos h fs d = Inr d'"
proof (induction fs arbitrary: d)
  case Nil
  show ?case by simp
next
  case (Cons f fs)
  show ?case by (simp only: contar_cargos_step Cons.IH)
qed

lemma contar_cargos_val:
  "contar_cargos h fs d = Inr d' \<Longrightarrow>
   dict_val d' k = dict_val d k + int (count_list (map (\<lambda>f. cargo (funcs h f)) fs) k)"
proof (induction fs arbitrary: d)
  case Nil
  then show ?case by simp
next
  case (Cons f fs)
  from Cons.prems have "contar_cargos h fs
      (AList.update (cargo (funcs h f)) (dict_val d (cargo (funcs h f)) + 1) d) = Inr d'"
    by (simp only: contar_cargos_step)
  from Cons.IH [OF this] show ?case by (simp add: dict_val_update)
qed

lemma contar_cargos_keys:
  "contar_cargos h fs d = Inr d' \<Longrightarrow>
   map fst d' = map fst d @
     filter (\<lambda>k. k \<notin> set (map fst d)) (first_encounter (map (\<lambda>f. cargo (funcs h f)) fs))"
proof (induction fs arbitrary: d)
  case Nil
  then show ?case by simp
next
  case (Cons f fs)
  let ?c = "cargo (funcs h f)"
  let ?d1 = "AList.update ?c (dict_val d ?c + 1) d"
  from Cons.prems have "contar_cargos h fs ?d1 = Inr d'"
    by (simp only: contar_cargos_step)
  from Cons.IH [OF this] have ih: "map fst d' = map fst ?d1 @
     filter (\<lambda>k. k \<notin> set (map fst ?d1)) (first_encounter (map (\<lambda>f. cargo (funcs h f)) fs))" .
  show ?case
  proof (cases "?c \<in> set (map fst d)")
    case True
    then have "(\<lambda>k. k \<noteq> ?c \<and> k \<notin> set (map fst d)) = (\<lambda>k. k \<notin> set (map fst d))"
      by auto
    with True ih show ?thesis by (simp add: update_keys)
  next
    case False
    have "\<And>k. (k \<noteq> ?c \<and> k \<notin> set (map fst d)) = (k \<notin> set (map fst d) \<and> k \<noteq> ?c)" by blast
    with False ih show ?thesis by (simp add: update_keys)
  qed
qed

lemma contar_cargos_sum:
  "contar_cargos h fs d = Inr d' \<Longrightarrow> distinct (map fst d) \<Longrightarrow>
   sum_list (map snd d') = sum_list (map snd d) + int (length fs)"
proof (induction fs arbitrary: d)
  case Nil
  then show ?case by simp
next
  case (Cons f fs)
  let ?c = "cargo (funcs h f)"
  let ?d1 = "AList.update ?c (dict_val d ?c + 1) d"
  from Cons.prems(1) have r: "contar_cargos h fs ?d1 = Inr d'"
    by (simp only: contar_cargos_step)
  have dd: "distinct (map fst ?d1)" using Cons.prems(2) by (simp add: distinct_update)
  from Cons.IH [OF r dd] sum_update [OF Cons.prems(2), of ?c "dict_val d ?c + 1"]
  show ?case by simp
qed

section \<open>Consistency of loja_atual with the employee collections\<close>

text \<open>
  C1, as the code has it. In every heap reached from freshly constructed objects by
  \<open>remover_funcionario\<close>, \<open>mudar_loja\<close>, the inventory operations, and
  \<open>adicionar_funcionario\<close> called on an employee whose \<open>loja_atual\<close> is \<open>None\<close>,
  an employee's \<open>loja_atual\<close> is exactly the store whose \<open>funcionarios\<close> contains the
  employee: the employee is in no collection when \<open>loja_atual\<close> is \<open>None\<close>, in that
  store's collection only when it is a store, and there once.
\<close>

theorem reachable_consistent:
  assumes "reachable h"
  shows "consistent h \<and> no_duplicates h
       \<and> lojas_contendo h e = (case loja_atual (funcs h e) of None \<Rightarrow> {} | Some s \<Rightarrow> {s})"
proof -
  from assms have w: "consistent h \<and> no_duplicates h" by (rule reachable_wf)
  then have "\<And>s. (e \<in> set (funcionarios (lojas h s))) = (loja_atual (funcs h e) = Some s)"
    by (simp add: consistent_def)
  then have "lojas_contendo h e = (case loja_atual (funcs h e) of None \<Rightarrow> {} | Some s \<Rightarrow> {s})"
    by (auto simp: lojas_contendo_def split: option.splits)
  with w show ?thesis by simp
qed

theorem reachable_consistent_witness:
  "reachable (final_heap (mudar_loja 0 1 heap1))
   \<and> consistent (final_heap (mudar_loja 0 1 heap1))
   \<and> no_duplicates (final_heap (mudar_loja 0 1 heap1))
   \<and> loja_atual (funcs (final_heap (mudar_loja 0 1 heap1)) 0) = Some 1
   \<and> lojas_contendo (final_heap (mudar_loja 0 1 heap1)) 0 = {1}"
proof -
  have f: "fresh heap0"
    by (simp add: fresh_def heap0_def loja_vazia_def funcionario_novo_def)
  have n: "loja_atual (funcs heap0 0) = None"
    by (simp add: heap0_def funcionario_novo_def)
  have "reachable heap1"
    unfolding heap1_def using reach_fresh [OF f] n by (rule reach_adicionar)
  then have r: "reachable (final_heap (mudar_loja 0 1 heap1))" by (rule reach_mudar)
  have l: "loja_atual (funcs (final_heap (mudar_loja 0 1 heap1)) 0) = Some 1"
    by (simp add: heap1_def heap0_def loja_vazia_def funcionario_novo_def mudar_loja_def
        mudar_loja_detach_def mudar_loja_attach_def mudar_loja_assign_def
        adicionar_funcionario_def remover_funcionario_def list_remove_def)
  from r l reachable_consistent [OF r, of 0] show ?thesis by simp
qed

text \<open>
  The claim as stated fails: with employee 0 in store 0 (a consistent heap),
  \<open>adicionar_funcionario\<close> on store 1 leaves the employee in the collection of store 0
  while \<open>loja_atual\<close> is store 1.
\<close>

theorem adicionar_funcionario_breaks_consistency:
  "consistent heap1
   \<and> loja_atual (funcs heap1 0) = Some 0
   \<and> 0 \<in> set (funcionarios (lojas (final_heap (adicionar_funcionario 1 0 heap1)) 0))
   \<and> loja_atual (funcs (final_heap (adicionar_funcionario 1 0 heap1)) 0) = Some 1
   \<and> \<not> consistent (final_heap (adicionar_funcionario 1 0 heap1))"
  by (simp add: heap1_def heap0_def loja_vazia_def funcionario_novo_def
      adicionar_funcionario_def consistent_def)

section \<open>Removing an employee\<close>

text \<open>
  C2, as the code has it. When \<open>e\<close> is in \<open>s.funcionarios\<close>, \<open>s.remover_funcionario(e)\<close>
  returns, \<open>e.loja_atual\<close> is \<open>None\<close>, and \<open>e\<close> occurs in \<open>s.funcionarios\<close> once less than
  before: the collection no longer contains \<open>e\<close> exactly when \<open>e\<close> occurred in it once.
\<close>

theorem remover_funcionario_first_occurrence:
  "e \<in> set (funcionarios (lojas h s)) \<Longrightarrow>
   \<exists>h'. remover_funcionario s e h = Returned () h'
      \<and> loja_atual (funcs h' e) = None
      \<and> Suc (count_list (funcionarios (lojas h' s)) e) = count_list (funcionarios (lojas h s)) e
      \<and> (e \<in> set (funcionarios (lojas h' s))) = (1 < count_list (funcionarios (lojas h s)) e)"
proof -
  assume m: "e \<in> set (funcionarios (lojas h s))"
  let ?xs = "funcionarios (lojas h s)"
  have c: "Suc (count_list (remove1 e ?xs) e) = count_list ?xs e"
    using m by (rule count_remove1)
  have "(e \<in> set (remove1 e ?xs)) = (0 < count_list (remove1 e ?xs) e)"
    by (rule mem_iff_count)
  with c have "(e \<in> set (remove1 e ?xs)) = (1 < count_list ?xs e)" by arith
  with c m show ?thesis
    by (simp add: remover_funcionario_def list_remove_def)
qed


theorem remover_funcionario_first_occurrence_witness:
  "(1::nat) \<in> set (funcionarios (lojas heap_main 0))
   \<and> remover_funcionario 0 1 heap_main
       = Returned () (set_loja_atual 1 None (set_funcionarios 0 [0] heap_main))
   \<and> funcionarios (lojas (final_heap (remover_funcionario 0 1 heap_main)) 0) = [0]
   \<and> loja_atual (funcs (final_heap (remover_funcionario 0 1 heap_main)) 1) = None"
proof -
  have m: "(1::nat) \<in> set (funcionarios (lojas heap_main 0))"
    by (simp add: heap_main_def)
  have r: "remover_funcionario 0 1 heap_main
       = Returned () (set_loja_atual 1 None (set_funcionarios 0 [0] heap_main))"
    by (simp add: remover_funcionario_def list_remove_def heap_main_def)
  from remover_funcionario_first_occurrence [OF m] m r show ?thesis by simp
qed

text \<open>
  The claim as stated fails when \<open>e\<close> had been added twice: one \<open>remover_funcionario\<close>
  returns and leaves the second occurrence in the collection.
\<close>

theorem remover_funcionario_duplicate_remains:
  "funcionarios (lojas heap_dup 0) = [0, 0]
   \<and> remover_funcionario 0 0 heap_dup
       = Returned () (set_loja_atual 0 None (set_funcionarios 0 [0] heap_dup))
   \<and> 0 \<in> set (funcionarios (lojas (final_heap (remover_funcionario 0 0 heap_dup)) 0))"
  by (simp add: heap_dup_def heap1_def heap0_def loja_vazia_def funcionario_novo_def
      adicionar_funcionario_def remover_funcionario_def list_remove_def)

section \<open>Removing an absent reference\<close>

text \<open>
  C3. When \<open>x\<close> is not in the respective collection of store \<open>s\<close>,
  \<open>remover_funcionario\<close> and \<open>remover_instrumento\<close> each raise \<open>ValueError\<close> to the
  caller and leave the whole heap (every collection, every \<open>loja_atual\<close>) as it was.
\<close>

theorem remover_absent_raises:
  "(x \<notin> set (funcionarios (lojas h s)) \<longrightarrow> remover_funcionario s x h = Raised ValueError h)
   \<and> (y \<notin> set (estoque (lojas h s)) \<longrightarrow> remover_instrumento s y h = Raised ValueError h)"
  by (simp add: remover_funcionario_def remover_instrumento_def list_remove_def)

theorem remover_absent_raises_witness:
  "(2::nat) \<notin> set (funcionarios (lojas heap_main 0))
   \<and> remover_funcionario 0 2 heap_main = Raised ValueError heap_main
   \<and> (2::nat) \<notin> set (estoque (lojas heap_main 0))
   \<and> remover_instrumento 0 2 heap_main = Raised ValueError heap_main"
  using remover_absent_raises [of 2 heap_main 0 2] by (simp add: heap_main_def)

section \<open>Transferring an employee\<close>

text \<open>
  C4, as the code has it. When \<open>e.loja_atual\<close> is \<open>old\<close> and \<open>e\<close> is in
  \<open>old.funcionarios\<close>, \<open>e.mudar_loja(new)\<close> returns the same heap as
  \<open>old.remover_funcionario(e)\<close> followed by \<open>new.adicionar_funcionario(e)\<close>;
  \<open>e.loja_atual\<close> ends as \<open>new\<close> and \<open>e\<close> is in \<open>new.funcionarios\<close>. When \<open>new\<close>
  differs from \<open>old\<close> and \<open>e\<close> occurred in \<open>old.funcionarios\<close> exactly once, \<open>e\<close> is
  absent from \<open>old.funcionarios\<close> afterwards. When \<open>e\<close> was in the collection of \<open>old\<close>
  only, and there exactly once, then in the two heaps a caller observes, the one before
  and the one after the call, \<open>e\<close> is in exactly one store's collection: that of \<open>old\<close>
  before, that of \<open>new\<close> after.
\<close>

theorem mudar_loja_as_remover_then_adicionar:
  assumes a: "loja_atual (funcs h e) = Some old" and m: "e \<in> set (funcionarios (lojas h old))"
  shows "\<exists>h'. mudar_loja e new h = Returned () h'
     \<and> remover_then_adicionar old new e h = Returned () h'
     \<and> loja_atual (funcs h' e) = Some new
     \<and> e \<in> set (funcionarios (lojas h' new))
     \<and> (old \<noteq> new \<and> count_list (funcionarios (lojas h old)) e = 1 \<longrightarrow>
          e \<notin> set (funcionarios (lojas h' old)))
     \<and> (lojas_contendo h e = {old} \<and> count_list (funcionarios (lojas h old)) e = 1 \<longrightarrow>
          lojas_contendo h' e = {new})"
proof -
  let ?xs = "funcionarios (lojas h old)"
  let ?h1 = "set_loja_atual e None (set_funcionarios old (remove1 e ?xs) h)"
  let ?h' = "set_loja_atual e (Some new)
               (set_funcionarios new (funcionarios (lojas ?h1 new) @ [e]) ?h1)"
  have r: "remover_funcionario old e h = Returned () ?h1"
    using m by (simp add: remover_funcionario_def list_remove_def)
  have d: "mudar_loja_detach e h = Returned () ?h1"
    using a r by (simp add: mudar_loja_detach_def)
  have t: "mudar_loja e new h = Returned () ?h'"
    using d by (simp add: mudar_loja_def mudar_loja_attach_def mudar_loja_assign_def
        adicionar_funcionario_def set_loja_atual_idem)
  have s: "remover_then_adicionar old new e h = Returned () ?h'"
    using r by (simp add: remover_then_adicionar_def adicionar_funcionario_def)
  have l: "loja_atual (funcs ?h' e) = Some new" by simp
  have n: "e \<in> set (funcionarios (lojas ?h' new))" by simp
  have c: "old \<noteq> new \<and> count_list ?xs e = 1 \<longrightarrow> e \<notin> set (funcionarios (lojas ?h' old))"
  proof
    assume h: "old \<noteq> new \<and> count_list ?xs e = 1"
    then have "e \<notin> set (remove1 e ?xs)" by (simp add: not_in_remove1_once)
    with h show "e \<notin> set (funcionarios (lojas ?h' old))" by simp
  qed
  have z: "lojas_contendo h e = {old} \<and> count_list ?xs e = 1 \<longrightarrow> lojas_contendo ?h' e = {new}"
  proof
    assume "lojas_contendo h e = {old} \<and> count_list ?xs e = 1"
    then have o': "{t. e \<in> set (funcionarios (lojas h t))} = {old}"
      and c1: "count_list ?xs e = 1"
      by (simp_all add: lojas_contendo_def)
    from o' have o: "\<And>t. (e \<in> set (funcionarios (lojas h t))) = (t = old)" by blast
    from c1 have nr: "e \<notin> set (remove1 e ?xs)" by (rule not_in_remove1_once)
    show "lojas_contendo ?h' e = {new}"
      using o nr by (auto simp: lojas_contendo_def)
  qed
  from t s l n c z show ?thesis by blast
qed

theorem mudar_loja_as_remover_then_adicionar_witness:
  "loja_atual (funcs heap_main 1) = Some 0
   \<and> funcionarios (lojas heap_main 0) = [0, 1]
   \<and> lojas_contendo heap_main 1 = {0}
   \<and> mudar_loja 1 1 heap_main = remover_then_adicionar 0 1 1 heap_main
   \<and> loja_atual (funcs (final_heap (mudar_loja 1 1 heap_main)) 1) = Some 1
   \<and> (1::nat) \<in> set (funcionarios (lojas (final_heap (mudar_loja 1 1 heap_main)) 1))
   \<and> (1::nat) \<notin> set (funcionarios (lojas (final_heap (mudar_loja 1 1 heap_main)) 0))
   \<and> lojas_contendo (final_heap (mudar_loja 1 1 heap_main)) 1 = {1}"
proof -
  have a: "loja_atual (funcs heap_main 1) = Some 0" by (simp add: heap_main_def)
  have f: "funcionarios (lojas heap_main 0) = [0, 1]" by (simp add: heap_main_def)
  have m: "(1::nat) \<in> set (funcionarios (lojas heap_main 0))" by (simp add: f)
  have c: "count_list (funcionarios (lojas heap_main 0)) 1 = 1" by (simp add: f)
  have o: "lojas_contendo heap_main 1 = {0}"
    by (auto simp: lojas_contendo_def heap_main_def loja_vazia_def split: if_splits)
  from mudar_loja_as_remover_then_adicionar [OF a m, of 1] obtain h' where
    t: "mudar_loja 1 1 heap_main = Returned () h'"
    and s: "remover_then_adicionar 0 1 1 heap_main = Returned () h'"
    and l: "loja_atual (funcs h' 1) = Some 1"
    and n: "1 \<in> set (funcionarios (lojas h' 1))"
    and x: "(0::nat) \<noteq> 1 \<and> count_list (funcionarios (lojas heap_main 0)) 1 = 1 \<longrightarrow>
              1 \<notin> set (funcionarios (lojas h' 0))"
    and z: "lojas_contendo heap_main 1 = {0}
              \<and> count_list (funcionarios (lojas heap_main 0)) 1 = 1 \<longrightarrow>
              lojas_contendo h' 1 = {1}"
    by blast
  from x c have x': "1 \<notin> set (funcionarios (lojas h' 0))" by simp
  from z o c have z': "lojas_contendo h' 1 = {1}" by simp
  from a f o t s l n x' z' show ?thesis by simp
qed

text \<open>
  The claim as stated fails for a caller in two ways. A transfer to the store the employee
  is already in leaves the employee in the collection of the old store. And when the
  employee had been added twice to the old store, the transfer to another store leaves
  one occurrence behind: the employee ends in the collections of two stores.
\<close>

theorem mudar_loja_same_store_or_duplicate:
  "loja_atual (funcs heap1 0) = Some 0
   \<and> funcionarios (lojas heap1 0) = [0]
   \<and> mudar_loja 0 0 heap1 = remover_then_adicionar 0 0 0 heap1
   \<and> mudar_loja 0 0 heap1 = Returned () (final_heap (mudar_loja 0 0 heap1))
   \<and> 0 \<in> set (funcionarios (lojas (final_heap (mudar_loja 0 0 heap1)) 0))
   \<and> loja_atual (funcs heap_dup 0) = Some 0
   \<and> funcionarios (lojas heap_dup 0) = [0, 0]
   \<and> mudar_loja 0 1 heap_dup = remover_then_adicionar 0 1 0 heap_dup
   \<and> mudar_loja 0 1 heap_dup = Returned () (final_heap (mudar_loja 0 1 heap_dup))
   \<and> 0 \<in> set (funcionarios (lojas (final_heap (mudar_loja 0 1 heap_dup)) 0))
   \<and> 0 \<in> set (funcionarios (lojas (final_heap (mudar_loja 0 1 heap_dup)) 1))"
  by (simp add: heap_dup_def heap1_def heap0_def loja_vazia_def funcionario_novo_def
      mudar_loja_def mudar_loja_detach_def mudar_loja_attach_def mudar_loja_assign_def
      remover_then_adicionar_def adicionar_funcionario_def remover_funcionario_def
      list_remove_def set_loja_atual_idem)

section \<open>Counting instruments by type\<close>

text \<open>
  C5. For every store and every inventory, \<open>consultar_instrumentos\<close> returns a dictionary
  with exactly the three keys \<open>Baixo\<close>, \<open>Guitarra\<close>, \<open>Viol\~ao\<close>, in this order whatever the
  order of the inventory; each value is the number of stocked instruments of that class
  (0 when there is none), and the values sum to the size of the inventory.
\<close>

theorem consultar_instrumentos_three_keys:
  "\<exists>b g v. consultar_instrumentos s h
             = Returned [(chave_Baixo, b), (chave_Guitarra, g), (chave_Violao, v)] h
     \<and> distinct [chave_Baixo, chave_Guitarra, chave_Violao]
     \<and> b + g + v = int (length (estoque (lojas h s)))
     \<and> b = int (length (filter is_Baixo (map (instrs h) (estoque (lojas h s)))))
     \<and> g = int (length (filter is_Guitarra (map (instrs h) (estoque (lojas h s)))))
     \<and> v = int (length (filter is_Violao (map (instrs h) (estoque (lojas h s)))))
     \<and> ((\<forall>i \<in> set (estoque (lojas h s)). \<not> is_Baixo (instrs h i)) \<longrightarrow> b = 0)
     \<and> ((\<forall>i \<in> set (estoque (lojas h s)). \<not> is_Guitarra (instrs h i)) \<longrightarrow> g = 0)
     \<and> ((\<forall>i \<in> set (estoque (lojas h s)). \<not> is_Violao (instrs h i)) \<longrightarrow> v = 0)"
proof -
  let ?ks = "map (instrs h) (estoque (lojas h s))"
  have r: "consultar_instrumentos s h
      = Returned [(chave_Baixo, int (length (filter is_Baixo ?ks))),
                  (chave_Guitarra, int (length (filter is_Guitarra ?ks))),
                  (chave_Violao, int (length (filter is_Violao ?ks)))] h"
    by (simp add: consultar_instrumentos_def contar_instrumentos_general)
  have t: "int (length (filter is_Baixo ?ks)) + int (length (filter is_Guitarra ?ks))
         + int (length (filter is_Violao ?ks)) = int (length (estoque (lojas h s)))"
    using filter_classes [of ?ks] by simp
  have zb: "(\<forall>i \<in> set (estoque (lojas h s)). \<not> is_Baixo (instrs h i)) \<longrightarrow>
              int (length (filter is_Baixo ?ks)) = 0"
    by (simp add: filter_empty_conv)
  have zg: "(\<forall>i \<in> set (estoque (lojas h s)). \<not> is_Guitarra (instrs h i)) \<longrightarrow>
              int (length (filter is_Guitarra ?ks)) = 0"
    by (simp add: filter_empty_conv)
  have zv: "(\<forall>i \<in> set (estoque (lojas h s)). \<not> is_Violao (instrs h i)) \<longrightarrow>
              int (length (filter is_Violao ?ks)) = 0"
    by (simp add: filter_empty_conv)
  from r chaves_distinct t zb zg zv show ?thesis by blast
qed


theorem consultar_instrumentos_three_keys_witness:
  "consultar_instrumentos 0 heap_main
     = Returned [(''Baixo'', 1), (''Guitarra'', 1), (''Viol'' @ [CHR 0xE3] @ ''o'', 0)] heap_main
   \<and> length (estoque (lojas heap_main 0)) = 2"
proof -
  have e: "estoque (lojas heap_main 0) = [0, 1]" by (simp add: heap_main_def)
  have i: "map (instrs heap_main) [0, 1]
      = [Baixo ''Fender'' ''Jazz Bass'' 5000 4 False,
         Guitarra ''Gibson'' ''Les Paul'' 7000 6 ''Humbucker'']"
    by (simp add: heap_main_def)
  from consultar_instrumentos_three_keys [of 0 heap_main] obtain b g v where
    r: "consultar_instrumentos 0 heap_main
          = Returned [(chave_Baixo, b), (chave_Guitarra, g), (chave_Violao, v)] heap_main"
    and b: "b = int (length (filter is_Baixo (map (instrs heap_main) (estoque (lojas heap_main 0)))))"
    and g: "g = int (length (filter is_Guitarra (map (instrs heap_main) (estoque (lojas heap_main 0)))))"
    and v: "v = int (length (filter is_Violao (map (instrs heap_main) (estoque (lojas heap_main 0)))))"
    by blast
  from b have b1: "b = 1" unfolding e i by simp
  from g have g1: "g = 1" unfolding e i by simp
  from v have v0: "v = 0" unfolding e i by simp
  from r b1 g1 v0 e show ?thesis
    by (simp add: chave_Baixo_def chave_Guitarra_def chave_Violao_def)
qed

section \<open>Counting employees by role\<close>

text \<open>
  C6. For every store and every employee collection, \<open>consultar_funcionarios_por_cargo\<close>
  returns a dictionary whose keys are exactly the distinct \<open>cargo\<close> strings of the
  store's employees, in the order in which they are first met when the collection is
  scanned; the value of a key is the number of employees with that \<open>cargo\<close>, so no value
  is 0, and the values sum to the size of the collection.
\<close>

theorem consultar_funcionarios_por_cargo_counts:
  "\<exists>d. consultar_funcionarios_por_cargo s h = Returned d h
     \<and> map fst d = first_encounter (map (\<lambda>f. cargo (funcs h f)) (funcionarios (lojas h s)))
     \<and> distinct (map fst d)
     \<and> set (map fst d) = set (map (\<lambda>f. cargo (funcs h f)) (funcionarios (lojas h s)))
     \<and> map snd d
         = map (\<lambda>k. int (count_list (map (\<lambda>f. cargo (funcs h f)) (funcionarios (lojas h s))) k))
             (map fst d)
     \<and> sum_list (map snd d) = int (length (funcionarios (lojas h s)))
     \<and> 0 \<notin> set (map snd d)"
proof -
  let ?fs = "funcionarios (lojas h s)"
  let ?roles = "map (\<lambda>f. cargo (funcs h f)) ?fs"
  from contar_cargos_returns [of h ?fs "[]"] obtain d where r: "contar_cargos h ?fs [] = Inr d"
    by blast
  have ret: "consultar_funcionarios_por_cargo s h = Returned d h"
    using r by (simp add: consultar_funcionarios_por_cargo_def)
  have keys: "map fst d = first_encounter ?roles"
    using contar_cargos_keys [OF r] by simp
  have dist: "distinct (map fst d)" by (simp add: keys)
  have st: "set (map fst d) = set ?roles" by (simp only: keys set_first_encounter)
  have val: "\<And>k. dict_val d k = int (count_list ?roles k)"
    using contar_cargos_val [OF r] by (simp add: dict_val_def)
  have vals: "map snd d = map (\<lambda>k. int (count_list ?roles k)) (map fst d)"
    using snd_by_dict_val [OF dist] val by simp
  have sm: "sum_list (map snd d) = int (length ?fs)"
    using contar_cargos_sum [OF r] by simp
  have nz: "0 \<notin> set (map snd d)"
  proof
    assume "0 \<in> set (map snd d)"
    then have "0 \<in> set (map (\<lambda>k. int (count_list ?roles k)) (map fst d))" by (simp only: vals)
    then obtain k where "k \<in> set (map fst d)" and "count_list ?roles k = 0"
      by (auto simp: image_iff)
    with st show False using count_list_0_iff [of ?roles k] by simp
  qed
  from ret keys dist st vals sm nz show ?thesis by blast
qed


theorem consultar_funcionarios_por_cargo_counts_witness:
  "consultar_funcionarios_por_cargo 0 heap_main
     = Returned [(''Vendedor'', 1), (''Gerente'', 1)] heap_main"
proof -
  have f: "map (\<lambda>f. cargo (funcs heap_main f)) (funcionarios (lojas heap_main 0))
      = [''Vendedor'', ''Gerente'']"
    by (simp add: heap_main_def)
  from consultar_funcionarios_por_cargo_counts [of 0 heap_main] obtain d where
    r: "consultar_funcionarios_por_cargo 0 heap_main = Returned d heap_main"
    and k: "map fst d
        = first_encounter (map (\<lambda>f. cargo (funcs heap_main f)) (funcionarios (lojas heap_main 0)))"
    and v: "map snd d
        = map (\<lambda>k. int (count_list
            (map (\<lambda>f. cargo (funcs heap_main f)) (funcionarios (lojas heap_main 0))) k))
            (map fst d)"
    by blast
  have k': "map fst d = [''Vendedor'', ''Gerente'']" using k unfolding f by simp
  have v': "map snd d = [1, 1]" using v unfolding f k' by simp
  have "d = zip (map fst d) (map snd d)" by (simp add: zip_map_fst_snd)
  then have "d = [(''Vendedor'', 1), (''Gerente'', 1)]" unfolding k' v' by simp
  with r show ?thesis by simp
qed

section \<open>Adding an employee\<close>

text \<open>
  C7. After \<open>s.adicionar_funcionario(e)\<close>, whatever the prior membership of \<open>e\<close>, the
  call has returned, \<open>e.loja_atual\<close> is \<open>s\<close>, and \<open>e\<close> occurs in \<open>s.funcionarios\<close> exactly
  once more than before.
\<close>

theorem adicionar_funcionario_count:
  "\<exists>h'. adicionar_funcionario s e h = Returned () h'
      \<and> loja_atual (funcs h' e) = Some s
      \<and> count_list (funcionarios (lojas h' s)) e
          = count_list (funcionarios (lojas h s)) e + 1"
  by (simp add: adicionar_funcionario_def)

section \<open>Totality of constructors and queries\<close>

text \<open>
  C8. The constructors of the three instrument classes, of \<open>Funcionario\<close> and of \<open>Loja\<close>
  return for all arguments, and both queries return a dictionary for every store and
  every heap: the \<open>KeyError\<close> of \<open>d[k] += 1\<close> never arises.
\<close>

theorem constructors_and_queries_total:
  "(\<exists>h'. Baixo_init i ma mo pr nc fl h = Returned () h')
   \<and> (\<exists>h'. Guitarra_init i ma mo pr nc tc h = Returned () h')
   \<and> (\<exists>h'. Violao_init i ma mo pr nc tb h = Returned () h')
   \<and> (\<exists>h'. Funcionario_init f nome c sal cg h = Returned () h')
   \<and> (\<exists>h'. Loja_init s loc h = Returned () h')
   \<and> (\<exists>d h'. consultar_instrumentos s h = Returned d h')
   \<and> (\<exists>d h'. consultar_funcionarios_por_cargo s h = Returned d h')"
proof -
  have q1: "\<exists>d h'. consultar_instrumentos s h = Returned d h'"
    by (simp add: consultar_instrumentos_def contar_instrumentos_general)
  obtain d where "contar_cargos h (funcionarios (lojas h s)) [] = Inr d"
    using contar_cargos_returns by blast
  then have q2: "\<exists>d h'. consultar_funcionarios_por_cargo s h = Returned d h'"
    by (simp add: consultar_funcionarios_por_cargo_def)
  from q1 q2 show ?thesis
    by (simp add: Baixo_init_def Guitarra_init_def Violao_init_def Funcionario_init_def
        Loja_init_def)
qed

section \<open>The queries change nothing\<close>

text \<open>
  C9. Each query returns with the heap it was called on, so the inventory, the employee
  collection, \<open>localizacao\<close>, \<open>loja_mais_proxima\<close> and every \<open>loja_atual\<close> are as before,
  and a second call in the heap the first one leaves returns an equal dictionary.
\<close>

theorem queries_leave_heap_unchanged:
  "(\<exists>d. consultar_instrumentos s h = Returned d h
        \<and> consultar_instrumentos s (final_heap (consultar_instrumentos s h)) = Returned d h)
   \<and> (\<exists>d. consultar_funcionarios_por_cargo s h = Returned d h
        \<and> consultar_funcionarios_por_cargo s
            (final_heap (consultar_funcionarios_por_cargo s h)) = Returned d h)"
proof -
  have q1: "\<exists>d. consultar_instrumentos s h = Returned d h"
    by (simp add: consultar_instrumentos_def contar_instrumentos_general)
  obtain d where "contar_cargos h (funcionarios (lojas h s)) [] = Inr d"
    using contar_cargos_returns by blast
  then have q2: "\<exists>d. consultar_funcionarios_por_cargo s h = Returned d h"
    by (simp add: consultar_funcionarios_por_cargo_def)
  from q1 q2 show ?thesis by auto
qed

section \<open>Transferring an employee who has no store\<close>

text \<open>
  C10. When \<open>e.loja_atual\<close> is \<open>None\<close>, \<open>e.mudar_loja(nova)\<close> returns: it has appended \<open>e\<close>
  to \<open>nova.funcionarios\<close> (one occurrence more than before), set \<open>e.loja_atual\<close> to
  \<open>nova\<close>, left the inventory of \<open>nova\<close> and every other store as they were.
\<close>

theorem mudar_loja_without_store:
  "loja_atual (funcs h e) = None \<Longrightarrow>
   \<exists>h'. mudar_loja e nova h = Returned () h'
     \<and> funcionarios (lojas h' nova) = funcionarios (lojas h nova) @ [e]
     \<and> count_list (funcionarios (lojas h' nova)) e
         = count_list (funcionarios (lojas h nova)) e + 1
     \<and> loja_atual (funcs h' e) = Some nova
     \<and> (\<forall>s. s \<noteq> nova \<longrightarrow> lojas h' s = lojas h s)
     \<and> estoque (lojas h' nova) = estoque (lojas h nova)
     \<and> instrs h' = instrs h"
  by (simp add: mudar_loja_def mudar_loja_detach_def mudar_loja_attach_def
      mudar_loja_assign_def adicionar_funcionario_def lojas_set_funcionarios_other)

theorem mudar_loja_without_store_witness:
  "loja_atual (funcs heap_main 3) = None
   \<and> funcionarios (lojas (final_heap (mudar_loja 3 0 heap_main)) 0) = [0, 1, 3]
   \<and> loja_atual (funcs (final_heap (mudar_loja 3 0 heap_main)) 3) = Some 0
   \<and> lojas (final_heap (mudar_loja 3 0 heap_main)) 1 = lojas heap_main 1"
proof -
  have n: "loja_atual (funcs heap_main 3) = None"
    by (simp add: heap_main_def funcionario_novo_def)
  have f: "funcionarios (lojas heap_main 0) = [0, 1]" by (simp add: heap_main_def)
  from mudar_loja_without_store [OF n, of 0] obtain h' where
    "mudar_loja 3 0 heap_main = Returned () h'"
    "funcionarios (lojas h' 0) = funcionarios (lojas heap_main 0) @ [3]"
    "loja_atual (funcs h' 3) = Some 0"
    "\<forall>s. s \<noteq> 0 \<longrightarrow> lojas h' s = lojas heap_main s" by blast
  with n f show ?thesis by simp
qed

end
